theory Spec2Isabelle
  imports Main "HOL-Library.Word" "HOL-Library.Sublist"
begin

section \<open>Strings of the host language\<close>

text \<open>
  A string of the program is a sequence of UTF-16 code units: \<open>length\<close> is the
  program's \<open>.length\<close>, \<open>take 200\<close> is \<open>.slice(0, 200)\<close>, \<open>@\<close> is \<open>+\<close>.
  Literals made of ASCII characters are written through \<open>ascii\<close>; the others are written
  out as code units.
\<close>

type_synonym code_unit = "16 word"
type_synonym jsstring = "code_unit list"

definition ascii :: "string \<Rightarrow> jsstring" where
  "ascii s = map (\<lambda>c. of_nat (of_char c)) s"

text \<open>\<open>Array.prototype.join\<close> on an array of strings.\<close>

fun join :: "jsstring \<Rightarrow> jsstring list \<Rightarrow> jsstring" where
  "join sep [] = []"
| "join sep [x] = x"
| "join sep (x # y # ys) = x @ sep @ join sep (y # ys)"

text \<open>
  White space and line terminators of the language, the code units that
  \<open>String.prototype.trim\<close> strips from both ends.
\<close>

definition is_white_space :: "code_unit \<Rightarrow> bool" where
  "is_white_space c \<longleftrightarrow>
     c \<in> {0x0009, 0x000A, 0x000B, 0x000C, 0x000D, 0x0020, 0x00A0, 0x1680,
          0x2000, 0x2001, 0x2002, 0x2003, 0x2004, 0x2005, 0x2006, 0x2007,
          0x2008, 0x2009, 0x200A, 0x2028, 0x2029, 0x202F, 0x205F, 0x3000, 0xFEFF}"

definition trim :: "jsstring \<Rightarrow> jsstring" where
  "trim s = rev (dropWhile is_white_space (rev (dropWhile is_white_space s)))"

text \<open>Decimal rendering of a non-negative integer, as a template literal renders it.\<close>

definition digit_unit :: "nat \<Rightarrow> code_unit" where
  "digit_unit d = of_nat (48 + d)"

fun decimal :: "nat \<Rightarrow> jsstring" where
  "decimal n = (if n < 10 then [digit_unit n] else decimal (n div 10) @ [digit_unit (n mod 10)])"

declare decimal.simps [simp del]

section \<open>Values and errors\<close>

text \<open>
  The values that \<open>JSON.parse\<close> produces and \<open>JSON.stringify\<close> consumes. The
  representation \<open>'n\<close> of numbers is left open. An object is the list of its own
  properties in insertion order. \<open>undefined\<close> is \<open>None\<close> of \<open>'n json option\<close>.
\<close>

datatype 'n json =
    JNull
  | JBool bool
  | JNum 'n
  | JStr jsstring
  | JArr "'n json list"
  | JObj "(jsstring \<times> 'n json) list"

datatype js_error =
    Error jsstring
  | TypeError
  | SyntaxError

text \<open>
  What the program takes from its platform: the JSON codec, the conversions of numbers
  and the encoding of query strings. \<open>JSON_parse\<close> gives \<open>None\<close> where the platform
  throws a \<open>SyntaxError\<close>.
\<close>

record 'n platform =
  JSON_parse :: "jsstring \<Rightarrow> 'n json option"
  JSON_stringify :: "'n json \<Rightarrow> jsstring"
  Number_toString :: "'n \<Rightarrow> jsstring"
  Number_toBoolean :: "'n \<Rightarrow> bool"
  URLSearchParams_toString :: "(jsstring \<times> jsstring) list \<Rightarrow> jsstring"

fun ToBoolean :: "'n platform \<Rightarrow> 'n json \<Rightarrow> bool" where
  "ToBoolean P JNull = False"
| "ToBoolean P (JBool b) = b"
| "ToBoolean P (JNum n) = Number_toBoolean P n"
| "ToBoolean P (JStr s) = (s \<noteq> [])"
| "ToBoolean P (JArr xs) = True"
| "ToBoolean P (JObj kvs) = True"

text \<open>
  Reading a property named \<open>k\<close> of a value, for the names the handlers read (\<open>title\<close>,
  \<open>id\<close>, \<open>structureId\<close>, \<open>spaces\<close>, \<open>results\<close>), none of which a prototype
  defines: \<open>null\<close> and \<open>undefined\<close> throw, an object gives its own property, every
  other value gives \<open>undefined\<close>.
\<close>

fun Get :: "'n json option \<Rightarrow> jsstring \<Rightarrow> js_error + 'n json option" where
  "Get None k = Inl TypeError"
| "Get (Some JNull) k = Inl TypeError"
| "Get (Some (JObj kvs)) k = Inr (map_of kvs k)"
| "Get (Some v) k = Inr None"

text \<open>
  Conversion to a string inside a template literal. An object with an own property
  \<open>toString\<close> (never callable, coming from JSON) cannot be converted; an array joins
  its elements with commas, \<open>null\<close> elements as empty strings.
\<close>

fun ToString :: "'n platform \<Rightarrow> 'n json \<Rightarrow> js_error + jsstring"
  and ToString_join :: "'n platform \<Rightarrow> 'n json list \<Rightarrow> js_error + jsstring" where
  "ToString P JNull = Inr (ascii ''null'')"
| "ToString P (JBool b) = Inr (if b then ascii ''true'' else ascii ''false'')"
| "ToString P (JNum n) = Inr (Number_toString P n)"
| "ToString P (JStr s) = Inr s"
| "ToString P (JArr xs) = ToString_join P xs"
| "ToString P (JObj kvs) =
     (if map_of kvs (ascii ''toString'') = None then Inr (ascii ''[object Object]'')
      else Inl TypeError)"
| "ToString_join P [] = Inr []"
| "ToString_join P (x # xs) =
     (case (if x = JNull then Inr [] else ToString P x) of
        Inl e \<Rightarrow> Inl e
      | Inr s \<Rightarrow>
          (if xs = [] then Inr s
           else (case ToString_join P xs of
                   Inl e \<Rightarrow> Inl e
                 | Inr t \<Rightarrow> Inr (s @ ascii '','' @ t))))"

definition ToString_value :: "'n platform \<Rightarrow> 'n json option \<Rightarrow> js_error + jsstring" where
  "ToString_value P v = (case v of None \<Rightarrow> Inr (ascii ''undefined'') | Some j \<Rightarrow> ToString P j)"

text \<open>
  The truth value of \<open>v.length\<close>: arrays and strings have a length, an object may carry
  an own property of that name, numbers and booleans have none.
\<close>

fun length_truthy :: "'n platform \<Rightarrow> 'n json option \<Rightarrow> js_error + bool" where
  "length_truthy P None = Inl TypeError"
| "length_truthy P (Some JNull) = Inl TypeError"
| "length_truthy P (Some (JArr xs)) = Inr (xs \<noteq> [])"
| "length_truthy P (Some (JStr s)) = Inr (s \<noteq> [])"
| "length_truthy P (Some (JObj kvs)) =
     Inr (case map_of kvs (ascii ''length'') of None \<Rightarrow> False | Some v \<Rightarrow> ToBoolean P v)"
| "length_truthy P (Some v) = Inr False"

definition bind_result :: "js_error + 'a \<Rightarrow> ('a \<Rightarrow> js_error + 'b) \<Rightarrow> js_error + 'b" where
  "bind_result m f = (case m of Inl e \<Rightarrow> Inl e | Inr x \<Rightarrow> f x)"

fun map_result :: "('a \<Rightarrow> js_error + 'b) \<Rightarrow> 'a list \<Rightarrow> js_error + 'b list" where
  "map_result f [] = Inr []"
| "map_result f (x # xs) =
     bind_result (f x) (\<lambda>y. bind_result (map_result f xs) (\<lambda>ys. Inr (y # ys)))"

text \<open>
  \<open>v.map(f)\<close>: only an array has a callable \<open>map\<close>; the callback runs on the elements
  in order and the first exception ends the call.
\<close>

fun Array_map :: "('n json \<Rightarrow> js_error + 'b) \<Rightarrow> 'n json option \<Rightarrow> js_error + 'b list" where
  "Array_map f (Some (JArr xs)) = map_result f xs"
| "Array_map f v = Inl TypeError"

section \<open>Configuration and start-up\<close>

record config =
  API_TOKEN :: jsstring
  DEFAULT_SPACE_ID :: jsstring

definition API_BASE :: jsstring where
  "API_BASE = ascii ''https://api.capacities.io''"

text \<open>The environment maps a variable's name to its value; an unset variable is \<open>None\<close>.\<close>

definition load_config :: "(jsstring \<Rightarrow> jsstring option) \<Rightarrow> config" where
  "load_config env =
     \<lparr> API_TOKEN = (case env (ascii ''CAPACITIES_TOKEN'') of None \<Rightarrow> [] | Some v \<Rightarrow> v),
       DEFAULT_SPACE_ID = (case env (ascii ''CAPACITIES_SPACE_ID'') of None \<Rightarrow> [] | Some v \<Rightarrow> v) \<rparr>"

definition tool_names :: "jsstring list" where
  "tool_names =
     [ascii ''capacities_save_to_daily_note'', ascii ''capacities_save_weblink'',
      ascii ''capacities_get_spaces'', ascii ''capacities_lookup'']"

text \<open>
  The top level of the module up to the last tool registration: what was written to the
  error stream, the exit status if the process has exited, and the names of the tools
  registered so far. Starting the transport comes after and is not modelled.
\<close>

record process =
  stderr :: "jsstring list"
  exit_code :: "nat option"
  registered :: "jsstring list"

definition startup :: "(jsstring \<Rightarrow> jsstring option) \<Rightarrow> process" where
  "startup env =
     (if API_TOKEN (load_config env) = []
      then \<lparr> stderr = [ascii ''ERROR: CAPACITIES_TOKEN env var is required'' @ [0x000A]],
             exit_code = Some 1, registered = [] \<rparr>
      else \<lparr> stderr = [], exit_code = None, registered = tool_names \<rparr>)"

section \<open>The HTTP helper\<close>

datatype http_method = GET | POST

record request =
  req_url :: jsstring
  req_method :: http_method
  req_headers :: "(jsstring \<times> jsstring) list"
  req_body :: "jsstring option"

text \<open>
  A response: its status, its status line, and what reading its body gives (the text, or
  the error the read is rejected with).
\<close>

record response =
  res_status :: nat
  res_statusText :: jsstring
  res_text :: "js_error + jsstring"

definition res_ok :: "response \<Rightarrow> bool" where
  "res_ok res \<longleftrightarrow> 200 \<le> res_status res \<and> res_status res \<le> 299"

text \<open>
  The upstream is a function from the request to the response, or to the error \<open>fetch\<close> is
  rejected with. Every call of \<open>fetch\<close> appends its request to the log that the functions
  below pass along, so the log counts the outbound calls.
\<close>

type_synonym fetch = "request \<Rightarrow> js_error + response"

text \<open>The url and the options that \<open>capacitiesRequest\<close> hands to \<open>fetch\<close>.\<close>

definition fetch_request ::
  "'n platform \<Rightarrow> config \<Rightarrow> jsstring \<Rightarrow> http_method \<Rightarrow> 'n json option \<Rightarrow>
   (jsstring \<times> jsstring) list option \<Rightarrow> request" where
  "fetch_request P cfg path method body params =
     (let url = API_BASE @ path;
          url = (case params of
                   None \<Rightarrow> url
                 | Some ps \<Rightarrow> url @ ascii ''?'' @ URLSearchParams_toString P ps)
      in \<lparr> req_url = url,
           req_method = method,
           req_headers =
             [(ascii ''Authorization'', ascii ''Bearer '' @ API_TOKEN cfg),
              (ascii ''Content-Type'', ascii ''application/json''),
              (ascii ''Accept'', ascii ''application/json'')],
           req_body =
             (case body of
                None \<Rightarrow> None
              | Some b \<Rightarrow> if ToBoolean P b then Some (JSON_stringify P b) else None) \<rparr>)"

definition capacitiesRequest ::
  "'n platform \<Rightarrow> config \<Rightarrow> fetch \<Rightarrow> jsstring \<Rightarrow> http_method \<Rightarrow> 'n json option \<Rightarrow>
   (jsstring \<times> jsstring) list option \<Rightarrow> request list \<Rightarrow> (js_error + 'n json) \<times> request list" where
  "capacitiesRequest P cfg fetch path method body params log =
     (let req = fetch_request P cfg path method body params;
          log' = log @ [req]
      in case fetch req of
           Inl e \<Rightarrow> (Inl e, log')
         | Inr res \<Rightarrow>
             if \<not> res_ok res then
               (let text = (case res_text res of Inl e \<Rightarrow> res_statusText res | Inr t \<Rightarrow> t)
                in (Inl (Error (ascii ''Capacities API error '' @ decimal (res_status res)
                                @ ascii '': '' @ text)), log'))
             else
               (case res_text res of
                  Inl e \<Rightarrow> (Inl e, log')
                | Inr responseText \<Rightarrow>
                    if responseText = [] \<or> trim responseText = [] then (Inr (JObj []), log')
                    else (case JSON_parse P responseText of
                            None \<Rightarrow> (Inl SyntaxError, log')
                          | Some v \<Rightarrow> (Inr v, log'))))"

text \<open>
  \<open>await\<close> on a call that passes the log along: a rejection ends the caller with the same
  error, a value goes to the rest of the caller.
\<close>

definition await ::
  "(js_error + 'a) \<times> request list \<Rightarrow> ('a \<Rightarrow> js_error + 'b) \<Rightarrow> (js_error + 'b) \<times> request list" where
  "await r k = (case r of (Inl e, log') \<Rightarrow> (Inl e, log') | (Inr v, log') \<Rightarrow> (k v, log'))"

section \<open>The tool handlers\<close>

text \<open>A reply is the list of its content items; every item of this server is a text.\<close>

datatype content = TextContent jsstring

type_synonym tool_result = "content list"

definition missing_space_reply :: tool_result where
  "missing_space_reply =
     [TextContent (ascii ''Error: No spaceId provided and CAPACITIES_SPACE_ID is not set.'')]"

text \<open>\<open>spaceId ?? DEFAULT_SPACE_ID\<close>\<close>

definition target_space :: "config \<Rightarrow> jsstring option \<Rightarrow> jsstring" where
  "target_space cfg spaceId = (case spaceId of None \<Rightarrow> DEFAULT_SPACE_ID cfg | Some s \<Rightarrow> s)"

subsection \<open>capacities_save_to_daily_note\<close>

record daily_note_args =
  dn_text :: jsstring
  dn_spaceId :: "jsstring option"
  dn_noTimestamp :: bool

definition ellipsis :: jsstring where
  "ellipsis = [0x2026]"

definition daily_note_header :: jsstring where
  "daily_note_header =
     [0x2705, 0x20, 0x421, 0x43E, 0x445, 0x440, 0x430, 0x43D, 0x435, 0x43D, 0x43E, 0x20, 0x432, 0x20]
     @ ascii ''Daily Note:'' @ [0x000A, 0x000A]"

definition capacities_save_to_daily_note ::
  "'n platform \<Rightarrow> config \<Rightarrow> fetch \<Rightarrow> daily_note_args \<Rightarrow> request list \<Rightarrow>
   (js_error + tool_result) \<times> request list" where
  "capacities_save_to_daily_note P cfg fetch a log =
     (let targetSpace = target_space cfg (dn_spaceId a) in
      if targetSpace = [] then (Inr missing_space_reply, log)
      else
        await (capacitiesRequest P cfg fetch (ascii ''/save-to-daily-note'') POST
                 (Some (JObj ([(ascii ''spaceId'', JStr targetSpace),
                               (ascii ''mdText'', JStr (dn_text a))]
                              @ (if dn_noTimestamp a then [(ascii ''noTimeStamp'', JBool True)]
                                 else []))))
                 None log)
          (\<lambda>result.
             let preview = (if length (dn_text a) > 200 then take 200 (dn_text a) @ ellipsis
                            else dn_text a)
             in Inr [TextContent (daily_note_header @ preview)]))"

subsection \<open>capacities_save_weblink\<close>

record weblink_args =
  wl_url :: jsstring
  wl_title :: "jsstring option"
  wl_description :: "jsstring option"
  wl_notes :: "jsstring option"
  wl_tags :: "jsstring list option"
  wl_spaceId :: "jsstring option"

text \<open>\<open>...(s ? { k: s } : {})\<close> for an optional string \<open>s\<close>\<close>

definition spread_string :: "jsstring \<Rightarrow> jsstring option \<Rightarrow> (jsstring \<times> 'n json) list" where
  "spread_string k s =
     (case s of None \<Rightarrow> [] | Some v \<Rightarrow> if v \<noteq> [] then [(k, JStr v)] else [])"

text \<open>\<open>...(tags ? { tags } : {})\<close>: an array is true whatever its length.\<close>

definition spread_tags :: "jsstring list option \<Rightarrow> (jsstring \<times> 'n json) list" where
  "spread_tags tags =
     (case tags of None \<Rightarrow> [] | Some ts \<Rightarrow> [(ascii ''tags'', JArr (map JStr ts))])"

definition weblink_body :: "jsstring \<Rightarrow> weblink_args \<Rightarrow> 'n json" where
  "weblink_body targetSpace a =
     JObj ([(ascii ''spaceId'', JStr targetSpace), (ascii ''url'', JStr (wl_url a))]
           @ spread_string (ascii ''titleOverwrite'') (wl_title a)
           @ spread_string (ascii ''descriptionOverwrite'') (wl_description a)
           @ spread_string (ascii ''mdText'') (wl_notes a)
           @ spread_tags (wl_tags a))"

text \<open>\<open>v ?? d\<close>\<close>

definition coalesce :: "'n json option \<Rightarrow> 'n json \<Rightarrow> 'n json" where
  "coalesce v d = (case v of None \<Rightarrow> d | Some JNull \<Rightarrow> d | Some x \<Rightarrow> x)"

definition weblink_header :: jsstring where
  "weblink_header =
     [0x2705, 0x20, 0x421, 0x441, 0x44B, 0x43B, 0x43A, 0x430, 0x20,
      0x441, 0x43E, 0x445, 0x440, 0x430, 0x43D, 0x435, 0x43D, 0x430, 0x20, 0x432, 0x20]
     @ ascii ''Capacities:'' @ [0x000A, 0x000A]"

definition weblink_text :: "jsstring \<Rightarrow> jsstring \<Rightarrow> jsstring \<Rightarrow> jsstring" where
  "weblink_text title url ident =
     weblink_header @ ascii ''**'' @ title @ ascii ''**'' @ [0x000A] @ url
     @ [0x000A, 0x000A] @ ascii ''ID: '' @ ident"

definition capacities_save_weblink ::
  "'n platform \<Rightarrow> config \<Rightarrow> fetch \<Rightarrow> weblink_args \<Rightarrow> request list \<Rightarrow>
   (js_error + tool_result) \<times> request list" where
  "capacities_save_weblink P cfg fetch a log =
     (let targetSpace = target_space cfg (wl_spaceId a) in
      if targetSpace = [] then (Inr missing_space_reply, log)
      else
        await (capacitiesRequest P cfg fetch (ascii ''/save-weblink'') POST
                 (Some (weblink_body targetSpace a)) None log)
          (\<lambda>result.
             bind_result (Get (Some result) (ascii ''title'')) (\<lambda>title.
             bind_result (ToString P (coalesce title (JStr (wl_url a)))) (\<lambda>title_text.
             bind_result (Get (Some result) (ascii ''id'')) (\<lambda>ident.
             bind_result (ToString P (coalesce ident (JStr (ascii ''n/a'')))) (\<lambda>id_text.
             Inr [TextContent (weblink_text title_text (wl_url a) id_text)]))))))"

subsection \<open>capacities_get_spaces\<close>

definition spaces_header :: jsstring where
  "spaces_header =
     [0xD83D, 0xDCDA, 0x20, 0x422, 0x432, 0x43E, 0x438, 0x20]
     @ ascii ''Capacities spaces:'' @ [0x000A, 0x000A]"

definition bullet :: code_unit where
  "bullet = 0x2022"

definition space_line :: "'n platform \<Rightarrow> 'n json \<Rightarrow> js_error + jsstring" where
  "space_line P s =
     bind_result (Get (Some s) (ascii ''title'')) (\<lambda>title.
     bind_result (ToString_value P title) (\<lambda>title_text.
     bind_result (Get (Some s) (ascii ''id'')) (\<lambda>ident.
     bind_result (ToString_value P ident) (\<lambda>id_text.
     Inr ([bullet, 0x20] @ ascii ''**'' @ title_text @ ascii ''** '' @ [0x2014, 0x20, 0x60]
          @ id_text @ [0x60])))))"

definition capacities_get_spaces ::
  "'n platform \<Rightarrow> config \<Rightarrow> fetch \<Rightarrow> request list \<Rightarrow> (js_error + tool_result) \<times> request list" where
  "capacities_get_spaces P cfg fetch log =
     await (capacitiesRequest P cfg fetch (ascii ''/spaces'') GET None None log)
       (\<lambda>result.
          bind_result (Get (Some result) (ascii ''spaces'')) (\<lambda>spaces.
          bind_result (Array_map (space_line P) spaces) (\<lambda>lines.
          Inr [TextContent (spaces_header @ join [0x000A] lines)])))"

subsection \<open>capacities_lookup\<close>

record lookup_args =
  lk_searchTerm :: jsstring
  lk_spaceId :: "jsstring option"

definition not_found_prefix :: jsstring where
  "not_found_prefix =
     [0x41D, 0x438, 0x447, 0x435, 0x433, 0x43E, 0x20, 0x43D, 0x435, 0x20,
      0x43D, 0x430, 0x439, 0x434, 0x435, 0x43D, 0x43E, 0x20, 0x43F, 0x43E, 0x20,
      0x437, 0x430, 0x43F, 0x440, 0x43E, 0x441, 0x443]
     @ ascii '': '' @ [0x22]"

definition results_prefix :: jsstring where
  "results_prefix =
     [0xD83D, 0xDD0D, 0x20, 0x420, 0x435, 0x437, 0x443, 0x43B, 0x44C, 0x442, 0x430, 0x442, 0x44B,
      0x20, 0x434, 0x43B, 0x44F, 0x20, 0x22]"

definition result_entry :: "'n platform \<Rightarrow> 'n json \<Rightarrow> js_error + jsstring" where
  "result_entry P r =
     bind_result (Get (Some r) (ascii ''title'')) (\<lambda>title.
     bind_result (ToString_value P title) (\<lambda>title_text.
     bind_result (Get (Some r) (ascii ''id'')) (\<lambda>ident.
     bind_result (ToString_value P ident) (\<lambda>id_text.
     bind_result (Get (Some r) (ascii ''structureId'')) (\<lambda>structureId.
     bind_result (ToString_value P structureId) (\<lambda>type_text.
     Inr ([bullet, 0x20] @ ascii ''**'' @ title_text @ ascii ''**'' @ [0x000A]
          @ ascii ''  ID: '' @ [0x60] @ id_text @ [0x60] @ [0x000A]
          @ ascii ''  '' @ [0x422, 0x438, 0x43F] @ ascii '': '' @ type_text)))))))"

definition capacities_lookup ::
  "'n platform \<Rightarrow> config \<Rightarrow> fetch \<Rightarrow> lookup_args \<Rightarrow> request list \<Rightarrow>
   (js_error + tool_result) \<times> request list" where
  "capacities_lookup P cfg fetch a log =
     (let targetSpace = target_space cfg (lk_spaceId a) in
      if targetSpace = [] then (Inr missing_space_reply, log)
      else
        await (capacitiesRequest P cfg fetch (ascii ''/lookup'') POST
                 (Some (JObj [(ascii ''searchTerm'', JStr (lk_searchTerm a)),
                              (ascii ''spaceId'', JStr targetSpace)]))
                 None log)
          (\<lambda>result.
             bind_result (Get (Some result) (ascii ''results'')) (\<lambda>results.
             bind_result (length_truthy P results) (\<lambda>nonempty.
             if \<not> nonempty
             then Inr [TextContent (not_found_prefix @ lk_searchTerm a @ [0x22])]
             else
               bind_result (Array_map (result_entry P) results) (\<lambda>entries.
               Inr [TextContent (results_prefix @ lk_searchTerm a @ [0x22] @ ascii '':''
                                 @ [0x000A, 0x000A] @ join [0x000A, 0x000A] entries)])))))"

subsection \<open>Dispatch\<close>

text \<open>A call of one of the four registered tools, with the arguments its handler receives.\<close>

datatype tool_call =
    SaveToDailyNote daily_note_args
  | SaveWeblink weblink_args
  | GetSpaces
  | Lookup lookup_args

fun call_tool ::
  "'n platform \<Rightarrow> config \<Rightarrow> fetch \<Rightarrow> tool_call \<Rightarrow> request list \<Rightarrow>
   (js_error + tool_result) \<times> request list" where
  "call_tool P cfg fetch (SaveToDailyNote a) log = capacities_save_to_daily_note P cfg fetch a log"
| "call_tool P cfg fetch (SaveWeblink a) log = capacities_save_weblink P cfg fetch a log"
| "call_tool P cfg fetch GetSpaces log = capacities_get_spaces P cfg fetch log"
| "call_tool P cfg fetch (Lookup a) log = capacities_lookup P cfg fetch a log"

text \<open>The explicit \<open>spaceId\<close> argument of a call; \<open>capacities_get_spaces\<close> takes none.\<close>

fun call_spaceId :: "tool_call \<Rightarrow> jsstring option" where
  "call_spaceId (SaveToDailyNote a) = dn_spaceId a"
| "call_spaceId (SaveWeblink a) = wl_spaceId a"
| "call_spaceId GetSpaces = None"
| "call_spaceId (Lookup a) = lk_spaceId a"

subsection \<open>Well-typed lookup results\<close>

text \<open>
  A match as the handler's \<open>LookupResponse\<close> interface declares it: three string
  properties. \<open>is_match r m\<close> says that the value \<open>r\<close> carries them with the values of
  \<open>m\<close>; \<open>match_entry m\<close> is the entry expected for such a match, and \<open>bullet_free m\<close>
  says that none of its three strings contains the bullet character.
\<close>

record lookup_match =
  m_id :: jsstring
  m_structureId :: jsstring
  m_title :: jsstring

definition is_match :: "'n json \<Rightarrow> lookup_match \<Rightarrow> bool" where
  "is_match r m \<longleftrightarrow>
     Get (Some r) (ascii ''id'') = Inr (Some (JStr (m_id m)))
     \<and> Get (Some r) (ascii ''structureId'') = Inr (Some (JStr (m_structureId m)))
     \<and> Get (Some r) (ascii ''title'') = Inr (Some (JStr (m_title m)))"

definition match_entry :: "lookup_match \<Rightarrow> jsstring" where
  "match_entry m =
     [bullet, 0x20] @ ascii ''**'' @ m_title m @ ascii ''**'' @ [0x000A]
     @ ascii ''  ID: '' @ [0x60] @ m_id m @ [0x60] @ [0x000A]
     @ ascii ''  '' @ [0x422, 0x438, 0x43F] @ ascii '': '' @ m_structureId m"

definition bullet_free :: "lookup_match \<Rightarrow> bool" where
  "bullet_free m \<longleftrightarrow>
     bullet \<notin> set (m_title m) \<and> bullet \<notin> set (m_id m) \<and> bullet \<notin> set (m_structureId m)"

section \<open>Input schemas\<close>

text \<open>
  The declared shapes of the arguments. The arguments arrive with the declared types;
  the schema checks the bounds and the formats and fills in the defaults. The two format
  checks of the schema library are parameters.
\<close>

record formats =
  is_uuid :: "jsstring \<Rightarrow> bool"
  is_url :: "jsstring \<Rightarrow> bool"

definition optional :: "('a \<Rightarrow> bool) \<Rightarrow> 'a option \<Rightarrow> bool" where
  "optional p v = (case v of None \<Rightarrow> True | Some x \<Rightarrow> p x)"

record daily_note_input =
  dni_text :: jsstring
  dni_spaceId :: "jsstring option"
  dni_noTimestamp :: "bool option"

definition daily_note_schema :: "formats \<Rightarrow> daily_note_input \<Rightarrow> daily_note_args option" where
  "daily_note_schema Z i =
     (if 1 \<le> length (dni_text i) \<and> length (dni_text i) \<le> 200000
         \<and> optional (is_uuid Z) (dni_spaceId i)
      then Some \<lparr> dn_text = dni_text i, dn_spaceId = dni_spaceId i,
                  dn_noTimestamp = (case dni_noTimestamp i of None \<Rightarrow> False | Some b \<Rightarrow> b) \<rparr>
      else None)"

definition weblink_schema :: "formats \<Rightarrow> weblink_args \<Rightarrow> weblink_args option" where
  "weblink_schema Z i =
     (if is_url Z (wl_url i)
         \<and> optional (\<lambda>s. length s \<le> 500) (wl_title i)
         \<and> optional (\<lambda>s. length s \<le> 1000) (wl_description i)
         \<and> optional (\<lambda>s. length s \<le> 200000) (wl_notes i)
         \<and> optional (\<lambda>ts. length ts \<le> 30) (wl_tags i)
         \<and> optional (is_uuid Z) (wl_spaceId i)
      then Some i else None)"

definition lookup_schema :: "formats \<Rightarrow> lookup_args \<Rightarrow> lookup_args option" where
  "lookup_schema Z i =
     (if 1 \<le> length (lk_searchTerm i) \<and> optional (is_uuid Z) (lk_spaceId i)
      then Some i else None)"

section \<open>Test doubles\<close>

text \<open>
  A platform whose parser returns a fixed value and whose serialiser writes JSON without
  escaping (enough for the strings used below), an upstream that answers every request
  with a fixed status and body, and a configuration with a credential and no default
  workspace.
\<close>

fun plain_stringify :: "nat json \<Rightarrow> jsstring"
  and plain_stringify_items :: "nat json list \<Rightarrow> jsstring"
  and plain_stringify_props :: "(jsstring \<times> nat json) list \<Rightarrow> jsstring" where
  "plain_stringify JNull = ascii ''null''"
| "plain_stringify (JBool b) = (if b then ascii ''true'' else ascii ''false'')"
| "plain_stringify (JNum n) = decimal n"
| "plain_stringify (JStr s) = [0x22] @ s @ [0x22]"
| "plain_stringify (JArr xs) = ascii ''['' @ plain_stringify_items xs @ ascii '']''"
| "plain_stringify (JObj kvs) = ascii ''{'' @ plain_stringify_props kvs @ ascii ''}''"
| "plain_stringify_items [] = []"
| "plain_stringify_items (x # xs) =
     plain_stringify x @ (if xs = [] then [] else ascii '','' @ plain_stringify_items xs)"
| "plain_stringify_props [] = []"
| "plain_stringify_props ((k, v) # kvs) =
     [0x22] @ k @ [0x22] @ ascii '':'' @ plain_stringify v
     @ (if kvs = [] then [] else ascii '','' @ plain_stringify_props kvs)"

definition parse_as :: "nat json \<Rightarrow> nat platform" where
  "parse_as v =
     \<lparr> JSON_parse = (\<lambda>s. Some v),
       JSON_stringify = plain_stringify,
       Number_toString = decimal,
       Number_toBoolean = (\<lambda>n. n \<noteq> 0),
       URLSearchParams_toString = (\<lambda>ps. []) \<rparr>"

definition respond_with :: "nat \<Rightarrow> jsstring \<Rightarrow> fetch" where
  "respond_with st body req =
     Inr \<lparr> res_status = st, res_statusText = [], res_text = Inr body \<rparr>"

definition test_config :: config where
  "test_config = \<lparr> API_TOKEN = ascii ''secret'', DEFAULT_SPACE_ID = [] \<rparr>"

definition empty_spaces_json :: jsstring where
  "empty_spaces_json = ascii ''{'' @ [0x22] @ ascii ''spaces'' @ [0x22] @ ascii '':[]}''"

definition url_only_body :: jsstring where
  "url_only_body =
     ascii ''{'' @ [0x22] @ ascii ''spaceId'' @ [0x22] @ ascii '':'' @ [0x22] @ ascii ''space''
     @ [0x22] @ ascii '','' @ [0x22] @ ascii ''url'' @ [0x22] @ ascii '':'' @ [0x22]
     @ ascii ''https://example.com'' @ [0x22] @ ascii ''}''"

definition url_only_reply :: jsstring where
  "url_only_reply =
     [0x2705, 0x20, 0x421, 0x441, 0x44B, 0x43B, 0x43A, 0x430, 0x20,
      0x441, 0x43E, 0x445, 0x440, 0x430, 0x43D, 0x435, 0x43D, 0x430, 0x20, 0x432, 0x20]
     @ ascii ''Capacities:'' @ [0x000A, 0x000A] @ ascii ''**https://example.com**''
     @ [0x000A] @ ascii ''https://example.com'' @ [0x000A, 0x000A] @ ascii ''ID: n/a''"

definition url_and_empty_tags_body :: jsstring where
  "url_and_empty_tags_body =
     ascii ''{'' @ [0x22] @ ascii ''spaceId'' @ [0x22] @ ascii '':'' @ [0x22] @ ascii ''space''
     @ [0x22] @ ascii '','' @ [0x22] @ ascii ''url'' @ [0x22] @ ascii '':'' @ [0x22]
     @ ascii ''https://example.com'' @ [0x22] @ ascii '','' @ [0x22] @ ascii ''tags'' @ [0x22]
     @ ascii '':[]}''"

definition two_matches :: "nat json" where
  "two_matches =
     JObj [(ascii ''results'',
            JArr [JObj [(ascii ''id'', JStr (ascii ''a1'')),
                        (ascii ''structureId'', JStr (ascii ''RootPage'')),
                        (ascii ''title'', JStr (ascii ''First''))],
                  JObj [(ascii ''id'', JStr (ascii ''b2'')),
                        (ascii ''structureId'', JStr (ascii ''RootTag'')),
                        (ascii ''title'', JStr (ascii ''Second''))]])]"

definition no_matches :: "nat json" where
  "no_matches = JObj [(ascii ''results'', JArr [])]"

text \<open>Environments: no credential at all, and a credential with an empty default workspace.\<close>

definition env_without_token :: "jsstring \<Rightarrow> jsstring option" where
  "env_without_token k = None"

definition env_with_empty_space :: "jsstring \<Rightarrow> jsstring option" where
  "env_with_empty_space k =
     (if k = ascii ''CAPACITIES_TOKEN'' then Some (ascii ''secret'')
      else if k = ascii ''CAPACITIES_SPACE_ID'' then Some []
      else None)"

section \<open>Properties of the HTTP helper\<close>

lemma snd_await: "snd (await r k) = snd r"
  by (simp add: await_def split: prod.split sum.split)

lemma fst_await: "fst (await r k) = bind_result (fst r) k"
  by (simp add: await_def bind_result_def split: prod.split sum.split)

lemma snd_capacitiesRequest:
  "snd (capacitiesRequest P cfg fetch path m b ps log) = log @ [fetch_request P cfg path m b ps]"
  by (simp add: capacitiesRequest_def Let_def split: sum.split option.split)

lemma capacitiesRequest_not_ok:
  assumes "fetch (fetch_request P cfg path m b ps) = Inr res"
    and "\<not> res_ok res" and "res_text res = Inr body"
  shows "fst (capacitiesRequest P cfg fetch path m b ps log) =
           Inl (Error (ascii ''Capacities API error '' @ decimal (res_status res)
                       @ ascii '': '' @ body))"
  using assms by (simp add: capacitiesRequest_def Let_def)

lemma capacitiesRequest_blank:
  assumes "fetch (fetch_request P cfg path m b ps) = Inr res"
    and "res_ok res" and "res_text res = Inr body" and "trim body = []"
  shows "fst (capacitiesRequest P cfg fetch path m b ps log) = Inr (JObj [])"
  using assms by (simp add: capacitiesRequest_def Let_def)

text \<open>
  Every call of a tool either stops at the missing workspace id, leaving the log as it
  was, or is one run of the HTTP helper followed by the formatting of its result.
\<close>

lemma call_tool_shape:
  "call_tool P cfg fetch c log = (Inr missing_space_reply, log) \<and> c \<noteq> GetSpaces
      \<and> target_space cfg (call_spaceId c) = []
   \<or> (c = GetSpaces \<or> target_space cfg (call_spaceId c) \<noteq> [])
      \<and> (\<exists>path m b k. call_tool P cfg fetch c log
            = await (capacitiesRequest P cfg fetch path m b None log) k)"
proof (cases c)
  case (SaveToDailyNote a)
  then show ?thesis
    by (simp add: capacities_save_to_daily_note_def Let_def) blast
next
  case (SaveWeblink a)
  then show ?thesis
    by (simp add: capacities_save_weblink_def Let_def) blast
next
  case GetSpaces
  then show ?thesis
    by (simp add: capacities_get_spaces_def) blast
next
  case (Lookup a)
  then show ?thesis
    by (simp add: capacities_lookup_def Let_def) blast
qed

lemma decimal_500: "decimal 500 = ascii ''500''"
  by (simp add: decimal.simps digit_unit_def ascii_def)

section \<open>Missing workspace id\<close>

text \<open>
  C1, as the handlers have it: a call of \<open>capacities_save_to_daily_note\<close>,
  \<open>capacities_save_weblink\<close> or \<open>capacities_lookup\<close> with no \<open>spaceId\<close> argument,
  under a configuration with no default workspace id, returns the textual error reply
  and leaves the log of outbound calls unchanged.
\<close>

theorem missing_workspace_makes_no_call:
  assumes "c \<noteq> GetSpaces" and "call_spaceId c = None" and "DEFAULT_SPACE_ID cfg = []"
  shows "call_tool P cfg fetch c log = (Inr missing_space_reply, log)"
  using assms call_tool_shape [of P cfg fetch c log]
  by (auto simp: target_space_def)

theorem missing_workspace_makes_no_call_witness:
  "call_tool (parse_as JNull) test_config (respond_with 200 [])
     (Lookup \<lparr> lk_searchTerm = ascii ''note'', lk_spaceId = None \<rparr>) []
   = (Inr missing_space_reply, [])"
  using missing_workspace_makes_no_call
    [of "Lookup \<lparr> lk_searchTerm = ascii ''note'', lk_spaceId = None \<rparr>" test_config
        "parse_as JNull" "respond_with 200 []" "[]"]
  by (simp add: test_config_def)

text \<open>
  C1 as stated fails for the fourth tool: \<open>capacities_get_spaces\<close> takes no arguments
  and reads no workspace id, so with no default configured it still sends its request
  and replies with the list of spaces.
\<close>

theorem get_spaces_without_workspace_counterexample:
  "call_spaceId GetSpaces = None \<and> DEFAULT_SPACE_ID test_config = []
   \<and> fst (call_tool (parse_as (JObj [(ascii ''spaces'', JArr [])])) test_config
            (respond_with 200 empty_spaces_json) GetSpaces [])
       = Inr [TextContent spaces_header]
   \<and> length (snd (call_tool (parse_as (JObj [(ascii ''spaces'', JArr [])])) test_config
                    (respond_with 200 empty_spaces_json) GetSpaces [])) = 1"
  by (simp add: test_config_def capacities_get_spaces_def capacitiesRequest_def await_def
      respond_with_def res_ok_def parse_as_def bind_result_def trim_def is_white_space_def
      ascii_def empty_spaces_json_def)

section \<open>Upstream errors\<close>

text \<open>
  C3: when a request that a tool call sent is answered with a status outside 200..299
  and a readable body, the call sent that one request and no other, and it fails with
  an error whose message contains the decimal status code and the body text.
\<close>

theorem upstream_error_fails_invocation:
  assumes "req \<in> set (drop (length log) (snd (call_tool P cfg fetch c log)))"
    and "fetch req = Inr res" and "\<not> res_ok res" and "res_text res = Inr body"
  shows "\<exists>msg. call_tool P cfg fetch c log = (Inl (Error msg), log @ [req])
           \<and> sublist (decimal (res_status res)) msg \<and> sublist body msg"
proof -
  from assms(1) call_tool_shape [of P cfg fetch c log]
  obtain path m b k where
    shape: "call_tool P cfg fetch c log = await (capacitiesRequest P cfg fetch path m b None log) k"
    by auto
  with assms(1) have req: "req = fetch_request P cfg path m b None"
    by (simp add: snd_await snd_capacitiesRequest)
  let ?msg = "ascii ''Capacities API error '' @ decimal (res_status res) @ ascii '': '' @ body"
  have "fst (capacitiesRequest P cfg fetch path m b None log) = Inl (Error ?msg)"
    using assms(2-4) req by (simp add: capacitiesRequest_not_ok)
  then have "call_tool P cfg fetch c log = (Inl (Error ?msg), log @ [req])"
    using shape req
    by (simp add: prod_eq_iff snd_await fst_await snd_capacitiesRequest bind_result_def)
  moreover have "sublist (decimal (res_status res)) ?msg"
    by (rule sublist_appendI)
  moreover have "sublist body ?msg"
    using sublist_append_leftI
      [of body "ascii ''Capacities API error '' @ decimal (res_status res) @ ascii '': ''"]
    by simp
  ultimately show ?thesis by blast
qed

text \<open>Status 500 with the body \<open>server exploded\<close>.\<close>

theorem upstream_error_fails_invocation_witness:
  "\<exists>msg. fst (call_tool (parse_as JNull) test_config
                 (respond_with 500 (ascii ''server exploded'')) GetSpaces []) = Inl (Error msg)
         \<and> sublist (ascii ''500'') msg \<and> sublist (ascii ''server exploded'') msg"
  using upstream_error_fails_invocation
    [of "fetch_request (parse_as JNull) test_config (ascii ''/spaces'') GET None None" "[]"
        "parse_as JNull" test_config "respond_with 500 (ascii ''server exploded'')" GetSpaces
        "\<lparr> res_status = 500, res_statusText = [], res_text = Inr (ascii ''server exploded'') \<rparr>"
        "ascii ''server exploded''"]
  by (auto simp add: capacities_get_spaces_def snd_await snd_capacitiesRequest respond_with_def
      res_ok_def decimal_500)

section \<open>Number of outbound calls\<close>

text \<open>
  C7: a tool call leaves the log as it was or appends exactly one request to it, whatever
  the upstream answers; it appends exactly one when it gets past the resolution of the
  workspace id, which \<open>capacities_get_spaces\<close> always does.
\<close>

theorem one_outbound_call:
  "(snd (call_tool P cfg fetch c log) = log
      \<or> (\<exists>req. snd (call_tool P cfg fetch c log) = log @ [req]))
   \<and> (c = GetSpaces \<or> target_space cfg (call_spaceId c) \<noteq> [] \<longrightarrow>
        (\<exists>req. snd (call_tool P cfg fetch c log) = log @ [req]))"
  using call_tool_shape [of P cfg fetch c log]
  by (auto simp: snd_await snd_capacitiesRequest)

theorem one_outbound_call_witness:
  "\<exists>req. snd (call_tool (parse_as JNull) test_config (respond_with 500 []) GetSpaces []) = [req]"
  using one_outbound_call [of "parse_as JNull" test_config "respond_with 500 []" GetSpaces "[]"]
  by simp

section \<open>Headers and bodies of the requests\<close>

text \<open>
  C8: every request that a tool call sends carries the bearer credential in its
  \<open>Authorization\<close> header and \<open>application/json\<close> in \<open>Content-Type\<close> and \<open>Accept\<close>,
  and its body, when it has one, is the output of \<open>JSON.stringify\<close>.
\<close>

theorem requests_carry_credential_and_json:
  assumes "req \<in> set (drop (length log) (snd (call_tool P cfg fetch c log)))"
  shows "req_headers req =
           [(ascii ''Authorization'', ascii ''Bearer '' @ API_TOKEN cfg),
            (ascii ''Content-Type'', ascii ''application/json''),
            (ascii ''Accept'', ascii ''application/json'')]
         \<and> (req_body req = None \<or> (\<exists>j. req_body req = Some (JSON_stringify P j)))"
proof -
  from assms call_tool_shape [of P cfg fetch c log]
  obtain path m b k where
    "call_tool P cfg fetch c log = await (capacitiesRequest P cfg fetch path m b None log) k"
    by auto
  with assms have req: "req = fetch_request P cfg path m b None"
    by (simp add: snd_await snd_capacitiesRequest)
  have "req_body req = None \<or> (\<exists>j. req_body req = Some (JSON_stringify P j))"
    unfolding req by (cases b) (auto simp: fetch_request_def)
  then show ?thesis
    unfolding req by (simp add: fetch_request_def)
qed

theorem requests_carry_credential_and_json_witness:
  "req_headers (fetch_request (parse_as JNull) test_config (ascii ''/spaces'') GET None None) =
     [(ascii ''Authorization'', ascii ''Bearer '' @ ascii ''secret''),
      (ascii ''Content-Type'', ascii ''application/json''),
      (ascii ''Accept'', ascii ''application/json'')]"
  using requests_carry_credential_and_json
    [of "fetch_request (parse_as JNull) test_config (ascii ''/spaces'') GET None None" "[]"
        "parse_as JNull" test_config "respond_with 200 []" GetSpaces]
  by (simp add: capacities_get_spaces_def snd_await snd_capacitiesRequest test_config_def)

section \<open>Empty response bodies\<close>

lemma capacitiesRequest_parsed:
  assumes "fetch (fetch_request P cfg path m b ps) = Inr res"
    and "res_ok res" and "res_text res = Inr body" and "trim body \<noteq> []"
    and "JSON_parse P body = Some v"
  shows "fst (capacitiesRequest P cfg fetch path m b ps log) = Inr v"
  using assms by (auto simp add: capacitiesRequest_def Let_def trim_def)

text \<open>
  On a 2xx answer with a blank body the helper returns the empty object, and the two
  saving tools reply as on any other success.
\<close>

lemma daily_note_blank_body:
  assumes "snd (capacities_save_to_daily_note P cfg fetch a log) = log @ [req]"
    and "fetch req = Inr res"
    and "res_ok res" and "res_text res = Inr body" and "trim body = []"
  shows "\<exists>reply. fst (capacities_save_to_daily_note P cfg fetch a log) = Inr reply"
proof -
  have "target_space cfg (dn_spaceId a) \<noteq> []"
    using assms(1) by (auto simp: capacities_save_to_daily_note_def Let_def)
  with assms show ?thesis
    by (simp add: capacities_save_to_daily_note_def Let_def fst_await snd_await
        snd_capacitiesRequest bind_result_def capacitiesRequest_blank)
qed

lemma weblink_blank_body:
  assumes "snd (capacities_save_weblink P cfg fetch a log) = log @ [req]"
    and "fetch req = Inr res"
    and "res_ok res" and "res_text res = Inr body" and "trim body = []"
  shows "fst (capacities_save_weblink P cfg fetch a log) =
           Inr [TextContent (weblink_text (wl_url a) (wl_url a) (ascii ''n/a''))]"
proof -
  have "target_space cfg (wl_spaceId a) \<noteq> []"
    using assms(1) by (auto simp: capacities_save_weblink_def Let_def)
  with assms show ?thesis
    by (simp add: capacities_save_weblink_def Let_def fst_await snd_await
        snd_capacitiesRequest bind_result_def capacitiesRequest_blank coalesce_def)
qed

text \<open>
  The two reading tools take a property out of the empty object, get \<open>undefined\<close>, and
  throw a \<open>TypeError\<close> on \<open>spaces.map\<close> and on \<open>results.length\<close>.
\<close>

lemma get_spaces_blank_body:
  assumes "snd (capacities_get_spaces P cfg fetch log) = log @ [req]"
    and "fetch req = Inr res"
    and "res_ok res" and "res_text res = Inr body" and "trim body = []"
  shows "fst (capacities_get_spaces P cfg fetch log) = Inl TypeError"
  using assms
  by (simp add: capacities_get_spaces_def fst_await snd_await snd_capacitiesRequest
      bind_result_def capacitiesRequest_blank)

lemma lookup_blank_body:
  assumes "snd (capacities_lookup P cfg fetch a log) = log @ [req]"
    and "fetch req = Inr res"
    and "res_ok res" and "res_text res = Inr body" and "trim body = []"
  shows "fst (capacities_lookup P cfg fetch a log) = Inl TypeError"
proof -
  have "target_space cfg (lk_spaceId a) \<noteq> []"
    using assms(1) by (auto simp: capacities_lookup_def Let_def)
  with assms show ?thesis
    by (simp add: capacities_lookup_def Let_def fst_await snd_await
        snd_capacitiesRequest bind_result_def capacitiesRequest_blank)
qed

text \<open>
  C2 at \<open>capacities_get_spaces\<close>, status 200 and an empty body: the call sends its
  request and ends with a \<open>TypeError\<close>, where the claim has it succeed.
\<close>

theorem get_spaces_empty_body_throws:
  "call_tool (parse_as JNull) test_config (respond_with 200 []) GetSpaces []
   = (Inl TypeError,
      [fetch_request (parse_as JNull) test_config (ascii ''/spaces'') GET None None])"
  by (simp add: capacities_get_spaces_def capacitiesRequest_def await_def
      respond_with_def res_ok_def bind_result_def)

section \<open>Preview of a saved note\<close>

text \<open>
  C4: when \<open>capacities_save_to_daily_note\<close> gets past the workspace resolution and
  returns a reply, the reply is the confirmation header followed by the whole text if
  the text has at most 200 code units, and by its first 200 code units and the ellipsis
  character otherwise.
\<close>

theorem daily_note_preview:
  assumes "target_space cfg (dn_spaceId a) \<noteq> []"
    and "fst (capacities_save_to_daily_note P cfg fetch a log) = Inr reply"
  shows "(length (dn_text a) \<le> 200 \<longrightarrow> reply = [TextContent (daily_note_header @ dn_text a)])
       \<and> (length (dn_text a) > 200 \<longrightarrow>
            reply = [TextContent (daily_note_header @ take 200 (dn_text a) @ ellipsis)])"
  using assms
  by (auto simp: capacities_save_to_daily_note_def Let_def fst_await bind_result_def
      split: sum.splits)

text \<open>A text of 201 code units and a text of five, each saved with status 200.\<close>

theorem daily_note_preview_witness:
  "fst (capacities_save_to_daily_note (parse_as JNull) test_config (respond_with 200 [])
          \<lparr> dn_text = replicate 201 0x61, dn_spaceId = Some (ascii ''space''),
            dn_noTimestamp = False \<rparr> [])
   = Inr [TextContent (daily_note_header @ replicate 200 0x61 @ ellipsis)]
   \<and> fst (capacities_save_to_daily_note (parse_as JNull) test_config (respond_with 200 [])
          \<lparr> dn_text = ascii ''hello'', dn_spaceId = Some (ascii ''space''),
            dn_noTimestamp = True \<rparr> [])
   = Inr [TextContent (daily_note_header @ ascii ''hello'')]"
proof -
  let ?long = "\<lparr> dn_text = replicate 201 (0x61 :: code_unit),
                dn_spaceId = Some (ascii ''space''), dn_noTimestamp = False \<rparr>"
  let ?short = "\<lparr> dn_text = ascii ''hello'', dn_spaceId = Some (ascii ''space''),
                 dn_noTimestamp = True \<rparr>"
  have space: "target_space test_config (dn_spaceId ?long) \<noteq> []"
    "target_space test_config (dn_spaceId ?short) \<noteq> []"
    by (simp_all add: target_space_def ascii_def)
  have "\<exists>reply. fst (capacities_save_to_daily_note (parse_as JNull) test_config
                       (respond_with 200 []) ?long []) = Inr reply"
    and "\<exists>reply. fst (capacities_save_to_daily_note (parse_as JNull) test_config
                       (respond_with 200 []) ?short []) = Inr reply"
    using space
    by (simp_all add: capacities_save_to_daily_note_def Let_def fst_await capacitiesRequest_def
        respond_with_def res_ok_def bind_result_def)
  then obtain r1 r2 where
    run1: "fst (capacities_save_to_daily_note (parse_as JNull) test_config
                  (respond_with 200 []) ?long []) = Inr r1"
    and run2: "fst (capacities_save_to_daily_note (parse_as JNull) test_config
                  (respond_with 200 []) ?short []) = Inr r2"
    by blast
  have "r1 = [TextContent (daily_note_header @ replicate 200 0x61 @ ellipsis)]"
    using daily_note_preview [OF space(1) run1] by simp
  moreover have "r2 = [TextContent (daily_note_header @ ascii ''hello'')]"
    using daily_note_preview [OF space(2) run2] by (simp add: ascii_def)
  ultimately show ?thesis
    using run1 run2 by simp
qed

section \<open>A weblink saved by its url alone\<close>

lemma weblink_text_explicit:
  "weblink_text title url ident =
     [0x2705, 0x20, 0x421, 0x441, 0x44B, 0x43B, 0x43A, 0x430, 0x20,
      0x441, 0x43E, 0x445, 0x440, 0x430, 0x43D, 0x435, 0x43D, 0x430, 0x20, 0x432, 0x20]
     @ ascii ''Capacities:'' @ [0x000A, 0x000A] @ ascii ''**'' @ title @ ascii ''**''
     @ [0x000A] @ url @ [0x000A, 0x000A] @ ascii ''ID: '' @ ident"
  by (simp add: weblink_text_def weblink_header_def)

text \<open>
  C5: with no title, description, notes or tags and a resolved workspace id, the call of
  \<open>capacities_save_weblink\<close> sends one request, whose body is the serialised object
  of exactly the two properties \<open>spaceId\<close> and \<open>url\<close>. Every reply after the request
  is one text: the confirmation line, a blank line, the title between double asterisks,
  the url on the next line, a blank line and \<open>ID: \<close> followed by the id. The title
  shown is the url itself if the result has no title (or \<open>null\<close>), and the id shown is
  \<open>n/a\<close> if the result has no id (or \<open>null\<close>); the url and, in the second case,
  \<open>n/a\<close> are thus parts of the text.
\<close>

theorem weblink_url_only:
  assumes "wl_title a = None" and "wl_description a = None" and "wl_notes a = None"
    and "wl_tags a = None" and "target_space cfg (wl_spaceId a) \<noteq> []"
  shows "(\<exists>req. snd (capacities_save_weblink P cfg fetch a log) = log @ [req]
            \<and> req_body req = Some (JSON_stringify P
                  (JObj [(ascii ''spaceId'', JStr (target_space cfg (wl_spaceId a))),
                         (ascii ''url'', JStr (wl_url a))])))
       \<and> (\<forall>reply. fst (capacities_save_weblink P cfg fetch a log) = Inr reply \<longrightarrow>
            (\<exists>result title_text id_text text.
                fst (capacitiesRequest P cfg fetch (ascii ''/save-weblink'') POST
                       (Some (JObj [(ascii ''spaceId'', JStr (target_space cfg (wl_spaceId a))),
                                    (ascii ''url'', JStr (wl_url a))])) None log)
                  = Inr result
              \<and> reply = [TextContent text]
              \<and> text =
                  [0x2705, 0x20, 0x421, 0x441, 0x44B, 0x43B, 0x43A, 0x430, 0x20,
                   0x441, 0x43E, 0x445, 0x440, 0x430, 0x43D, 0x435, 0x43D, 0x430, 0x20, 0x432, 0x20]
                  @ ascii ''Capacities:'' @ [0x000A, 0x000A] @ ascii ''**'' @ title_text
                  @ ascii ''**'' @ [0x000A] @ wl_url a @ [0x000A, 0x000A] @ ascii ''ID: ''
                  @ id_text
              \<and> sublist (wl_url a) text
              \<and> (Get (Some result) (ascii ''title'') = Inr None
                   \<or> Get (Some result) (ascii ''title'') = Inr (Some JNull)
                   \<longrightarrow> title_text = wl_url a)
              \<and> (Get (Some result) (ascii ''id'') = Inr None
                   \<or> Get (Some result) (ascii ''id'') = Inr (Some JNull)
                   \<longrightarrow> id_text = ascii ''n/a'' \<and> suffix (ascii ''ID: n/a'') text)))"
proof (intro conjI allI impI)
  show "\<exists>req. snd (capacities_save_weblink P cfg fetch a log) = log @ [req]
            \<and> req_body req = Some (JSON_stringify P
                  (JObj [(ascii ''spaceId'', JStr (target_space cfg (wl_spaceId a))),
                         (ascii ''url'', JStr (wl_url a))]))"
    using assms
    by (simp add: capacities_save_weblink_def Let_def snd_await snd_capacitiesRequest
        fetch_request_def weblink_body_def spread_string_def spread_tags_def)
next
  fix reply
  assume ok: "fst (capacities_save_weblink P cfg fetch a log) = Inr reply"
  let ?b = "JObj [(ascii ''spaceId'', JStr (target_space cfg (wl_spaceId a))),
                  (ascii ''url'', JStr (wl_url a))] :: 'a json"
  let ?r = "fst (capacitiesRequest P cfg fetch (ascii ''/save-weblink'') POST (Some ?b) None log)"
  let ?text = "\<lambda>title_text id_text.
                  [0x2705, 0x20, 0x421, 0x441, 0x44B, 0x43B, 0x43A, 0x430, 0x20,
                   0x441, 0x43E, 0x445, 0x440, 0x430, 0x43D, 0x435, 0x43D, 0x430, 0x20, 0x432, 0x20]
                  @ ascii ''Capacities:'' @ [0x000A, 0x000A] @ ascii ''**'' @ title_text
                  @ ascii ''**'' @ [0x000A] @ wl_url a @ [0x000A, 0x000A] @ ascii ''ID: ''
                  @ id_text"
  have body: "weblink_body (target_space cfg (wl_spaceId a)) a = ?b"
    using assms(1-4) by (simp add: weblink_body_def spread_string_def spread_tags_def)
  from ok assms(5) have run: "bind_result ?r (\<lambda>result.
             bind_result (Get (Some result) (ascii ''title'')) (\<lambda>title.
             bind_result (ToString P (coalesce title (JStr (wl_url a)))) (\<lambda>title_text.
             bind_result (Get (Some result) (ascii ''id'')) (\<lambda>ident.
             bind_result (ToString P (coalesce ident (JStr (ascii ''n/a'')))) (\<lambda>id_text.
             Inr [TextContent (weblink_text title_text (wl_url a) id_text)]))))) = Inr reply"
    by (simp add: capacities_save_weblink_def Let_def fst_await body)
  then obtain result where result: "?r = Inr result"
    by (auto simp: bind_result_def split: sum.splits)
  with run obtain title title_text ident id_text where parts:
    "Get (Some result) (ascii ''title'') = Inr title"
    "ToString P (coalesce title (JStr (wl_url a))) = Inr title_text"
    "Get (Some result) (ascii ''id'') = Inr ident"
    "ToString P (coalesce ident (JStr (ascii ''n/a''))) = Inr id_text"
    and reply: "reply = [TextContent (weblink_text title_text (wl_url a) id_text)]"
    by (auto simp: bind_result_def split: sum.splits)
  have shown: "reply = [TextContent (?text title_text id_text)]"
    using reply by (simp only: weblink_text_explicit)
  have url: "sublist (wl_url a) (?text title_text id_text)"
    using sublist_appendI
      [of "wl_url a"
          "[0x2705, 0x20, 0x421, 0x441, 0x44B, 0x43B, 0x43A, 0x430, 0x20,
            0x441, 0x43E, 0x445, 0x440, 0x430, 0x43D, 0x435, 0x43D, 0x430, 0x20, 0x432, 0x20]
           @ ascii ''Capacities:'' @ [0x000A, 0x000A] @ ascii ''**'' @ title_text
           @ ascii ''**'' @ [0x000A]"
          "[0x000A, 0x000A] @ ascii ''ID: '' @ id_text"]
    by simp
  have title: "title_text = wl_url a"
    if "Get (Some result) (ascii ''title'') = Inr None
        \<or> Get (Some result) (ascii ''title'') = Inr (Some JNull)"
    using that parts(1,2) by (auto simp: coalesce_def)
  have ident: "id_text = ascii ''n/a'' \<and> suffix (ascii ''ID: n/a'') (?text title_text id_text)"
    if "Get (Some result) (ascii ''id'') = Inr None
        \<or> Get (Some result) (ascii ''id'') = Inr (Some JNull)"
  proof -
    from that parts(3,4) have "id_text = ascii ''n/a''"
      by (auto simp: coalesce_def)
    moreover have "ascii ''ID: n/a'' = ascii ''ID: '' @ ascii ''n/a''"
      by (simp add: ascii_def)
    ultimately show ?thesis
      by (simp add: suffix_def)
  qed
  show "\<exists>result title_text id_text text.
          ?r = Inr result
        \<and> reply = [TextContent text]
        \<and> text = ?text title_text id_text
        \<and> sublist (wl_url a) text
        \<and> (Get (Some result) (ascii ''title'') = Inr None
             \<or> Get (Some result) (ascii ''title'') = Inr (Some JNull)
             \<longrightarrow> title_text = wl_url a)
        \<and> (Get (Some result) (ascii ''id'') = Inr None
             \<or> Get (Some result) (ascii ''id'') = Inr (Some JNull)
             \<longrightarrow> id_text = ascii ''n/a'' \<and> suffix (ascii ''ID: n/a'') text)"
    using result shown url title ident
    by (intro exI [of _ result] exI [of _ title_text] exI [of _ id_text]
          exI [of _ "?text title_text id_text"]) blast
qed

text \<open>The url \<open>https://example.com\<close> alone, answered with status 200 and no body.\<close>

theorem weblink_url_only_witness:
  "map req_body
     (snd (capacities_save_weblink (parse_as JNull) test_config (respond_with 200 [])
             \<lparr> wl_url = ascii ''https://example.com'', wl_title = None, wl_description = None,
               wl_notes = None, wl_tags = None, wl_spaceId = Some (ascii ''space'') \<rparr> []))
   = [Some url_only_body]
   \<and> fst (capacities_save_weblink (parse_as JNull) test_config (respond_with 200 [])
          \<lparr> wl_url = ascii ''https://example.com'', wl_title = None, wl_description = None,
            wl_notes = None, wl_tags = None, wl_spaceId = Some (ascii ''space'') \<rparr> [])
   = Inr [TextContent url_only_reply]"
proof -
  let ?a = "\<lparr> wl_url = ascii ''https://example.com'', wl_title = None, wl_description = None,
            wl_notes = None, wl_tags = None, wl_spaceId = Some (ascii ''space'') \<rparr>"
  let ?run = "capacities_save_weblink (parse_as JNull) test_config (respond_with 200 []) ?a []"
  have space: "target_space test_config (wl_spaceId ?a) \<noteq> []"
    by (simp add: target_space_def ascii_def)
  have blank: "fst (capacitiesRequest (parse_as JNull) test_config (respond_with 200 [])
                  (ascii ''/save-weblink'') POST
                  (Some (JObj [(ascii ''spaceId'', JStr (target_space test_config (wl_spaceId ?a))),
                               (ascii ''url'', JStr (wl_url ?a))])) None [])
               = Inr (JObj [])"
    by (simp add: capacitiesRequest_def respond_with_def res_ok_def)
  have "\<exists>reply. fst ?run = Inr reply"
    using space blank
    by (simp add: capacities_save_weblink_def Let_def fst_await bind_result_def coalesce_def
        weblink_body_def spread_string_def spread_tags_def)
  then obtain reply where reply: "fst ?run = Inr reply"
    by blast
  note claim = weblink_url_only [of ?a test_config "parse_as JNull" "respond_with 200 []" "[]"]
  from claim space have "map req_body (snd ?run) = [Some url_only_body]"
    by (auto simp add: target_space_def parse_as_def url_only_body_def)
  moreover from claim space reply blank
  have "reply = [TextContent url_only_reply]"
    by (auto simp add: url_only_reply_def ascii_def)
  ultimately show ?thesis
    using reply by simp
qed

section \<open>Replies of the lookup\<close>

lemma result_entry_match: "is_match r m \<Longrightarrow> result_entry P r = Inr (match_entry m)"
  by (simp add: is_match_def result_entry_def match_entry_def bind_result_def ToString_value_def)

lemma map_result_matches:
  "list_all2 is_match rs ms \<Longrightarrow> map_result (result_entry P) rs = Inr (map match_entry ms)"
  by (induction rs ms rule: list_all2_induct) (simp_all add: result_entry_match bind_result_def)

lemma match_entry_bulleted: "prefix [bullet, 0x20] (match_entry m)"
  by (simp add: match_entry_def)

lemma match_entry_title: "sublist (m_title m) (match_entry m)"
proof -
  have "match_entry m = ([bullet, 0x20] @ ascii ''**'') @ m_title m
          @ (ascii ''**'' @ [0x000A] @ ascii ''  ID: '' @ [0x60] @ m_id m @ [0x60] @ [0x000A]
             @ ascii ''  '' @ [0x422, 0x438, 0x43F] @ ascii '': '' @ m_structureId m)"
    by (simp add: match_entry_def)
  then show ?thesis by (simp only: sublist_appendI)
qed

lemma match_entry_id: "sublist (m_id m) (match_entry m)"
proof -
  have "match_entry m = ([bullet, 0x20] @ ascii ''**'' @ m_title m @ ascii ''**'' @ [0x000A]
            @ ascii ''  ID: '' @ [0x60]) @ m_id m
          @ ([0x60] @ [0x000A] @ ascii ''  '' @ [0x422, 0x438, 0x43F] @ ascii '': ''
             @ m_structureId m)"
    by (simp add: match_entry_def)
  then show ?thesis by (simp only: sublist_appendI)
qed

lemma match_entry_structureId: "sublist (m_structureId m) (match_entry m)"
proof -
  have "match_entry m = ([bullet, 0x20] @ ascii ''**'' @ m_title m @ ascii ''**'' @ [0x000A]
            @ ascii ''  ID: '' @ [0x60] @ m_id m @ [0x60] @ [0x000A] @ ascii ''  ''
            @ [0x422, 0x438, 0x43F] @ ascii '': '') @ m_structureId m @ []"
    by (simp add: match_entry_def)
  then show ?thesis by (simp only: sublist_appendI)
qed

lemma bullet_not_in_not_found_prefix: "bullet \<notin> set not_found_prefix"
  by (simp add: not_found_prefix_def bullet_def ascii_def)

lemma count_results_prefix: "count_list results_prefix bullet = 0"
  by (simp add: results_prefix_def bullet_def)

lemma count_match_entry: "bullet_free m \<Longrightarrow> count_list (match_entry m) bullet = 1"
  by (simp add: bullet_free_def match_entry_def count_list_0_iff)
     (simp add: bullet_def ascii_def)

lemma count_join_entries:
  "\<forall>m \<in> set ms. bullet_free m \<Longrightarrow>
   count_list (join [0x000A, 0x000A] (map match_entry ms)) bullet = length ms"
proof (induction ms rule: induct_list012)
  case 1
  then show ?case by simp
next
  case (2 m)
  then show ?case by (simp add: count_match_entry)
next
  case (3 m m' ms)
  then show ?case by (simp add: count_match_entry) (simp add: bullet_def)
qed

lemma lookup_result:
  assumes "target_space cfg (lk_spaceId a) \<noteq> []"
    and "fst (capacitiesRequest P cfg fetch (ascii ''/lookup'') POST
                 (Some (JObj [(ascii ''searchTerm'', JStr (lk_searchTerm a)),
                              (ascii ''spaceId'', JStr (target_space cfg (lk_spaceId a)))]))
                 None log) = Inr result"
    and "Get (Some result) (ascii ''results'') = Inr (Some (JArr rs))"
    and "list_all2 is_match rs ms"
  shows "fst (capacities_lookup P cfg fetch a log) =
           Inr [TextContent
                 (if ms = [] then not_found_prefix @ lk_searchTerm a @ [0x22]
                  else results_prefix @ lk_searchTerm a @ [0x22] @ ascii '':''
                       @ [0x000A, 0x000A] @ join [0x000A, 0x000A] (map match_entry ms))]"
proof -
  from assms(4) have "length rs = length ms" by (rule list_all2_lengthD)
  then have empty: "rs = [] \<longleftrightarrow> ms = []" by auto
  show ?thesis
    using assms(1-3) map_result_matches [OF assms(4), of P] empty
    by (simp add: capacities_lookup_def Let_def fst_await bind_result_def)
qed

text \<open>
  C6: the lookup sent its request, the answer is a 2xx status whose body parses to a
  value with an array \<open>results\<close> of well-typed matches \<open>ms\<close>. Then the call replies
  with one text. With no match the text is the not-found message around the search term
  and has no bullet but those of the term. With matches the text is the results header
  around the search term followed by as many entries as there are matches, joined by
  blank lines, in the order of \<open>ms\<close>; entry \<open>i\<close> starts with the bullet and contains the
  title, the id and the structure id of match \<open>i\<close>; and when neither the term nor the
  matches contain the bullet character, the text has exactly one bullet per match.
\<close>

theorem lookup_reply:
  assumes sent: "snd (capacities_lookup P cfg fetch a log) = log @ [req]"
    and answer: "fetch req = Inr res" "res_ok res" "res_text res = Inr body" "trim body \<noteq> []"
    and parsed: "JSON_parse P body = Some result"
    and results: "Get (Some result) (ascii ''results'') = Inr (Some (JArr rs))"
    and matches: "list_all2 is_match rs ms"
  shows "\<exists>text. fst (capacities_lookup P cfg fetch a log) = Inr [TextContent text]
     \<and> (ms = [] \<longrightarrow>
          text = not_found_prefix @ lk_searchTerm a @ [0x22]
          \<and> sublist (lk_searchTerm a) text
          \<and> (bullet \<notin> set (lk_searchTerm a) \<longrightarrow> bullet \<notin> set text))
     \<and> (ms \<noteq> [] \<longrightarrow>
          (\<exists>entries.
              length entries = length ms
            \<and> text = results_prefix @ lk_searchTerm a @ [0x22] @ ascii '':''
                     @ [0x000A, 0x000A] @ join [0x000A, 0x000A] entries
            \<and> (\<forall>i < length ms.
                  prefix [bullet, 0x20] (entries ! i)
                  \<and> sublist (m_title (ms ! i)) (entries ! i)
                  \<and> sublist (m_id (ms ! i)) (entries ! i)
                  \<and> sublist (m_structureId (ms ! i)) (entries ! i)))
          \<and> (bullet \<notin> set (lk_searchTerm a) \<and> (\<forall>m \<in> set ms. bullet_free m) \<longrightarrow>
                count_list text bullet = length ms))"
proof -
  let ?b = "Some (JObj [(ascii ''searchTerm'', JStr (lk_searchTerm a)),
                        (ascii ''spaceId'', JStr (target_space cfg (lk_spaceId a)))])"
  have space: "target_space cfg (lk_spaceId a) \<noteq> []"
    using sent by (auto simp: capacities_lookup_def Let_def)
  with sent have req: "req = fetch_request P cfg (ascii ''/lookup'') POST ?b None"
    by (simp add: capacities_lookup_def Let_def snd_await snd_capacitiesRequest)
  have "fst (capacitiesRequest P cfg fetch (ascii ''/lookup'') POST ?b None log) = Inr result"
    using answer parsed unfolding req by (rule capacitiesRequest_parsed)
  note reply = lookup_result [OF space this results matches]
  show ?thesis
  proof (cases "ms = []")
    case True
    have "sublist (lk_searchTerm a) (not_found_prefix @ lk_searchTerm a @ [0x22])"
      by (rule sublist_appendI)
    moreover have "bullet \<noteq> 0x22"
      by (simp add: bullet_def)
    ultimately show ?thesis
      using True reply by (simp add: bullet_not_in_not_found_prefix)
  next
    case False
    have "\<forall>i < length ms.
            prefix [bullet, 0x20] (map match_entry ms ! i)
            \<and> sublist (m_title (ms ! i)) (map match_entry ms ! i)
            \<and> sublist (m_id (ms ! i)) (map match_entry ms ! i)
            \<and> sublist (m_structureId (ms ! i)) (map match_entry ms ! i)"
      by (simp add: match_entry_bulleted match_entry_title match_entry_id
          match_entry_structureId)
    moreover have "count_list (results_prefix @ lk_searchTerm a @ [0x22] @ ascii '':''
                       @ [0x000A, 0x000A] @ join [0x000A, 0x000A] (map match_entry ms)) bullet
                   = length ms"
      if "bullet \<notin> set (lk_searchTerm a)" and "\<forall>m \<in> set ms. bullet_free m"
      using that by (simp add: count_results_prefix count_join_entries count_list_0_iff)
         (simp add: bullet_def ascii_def)
    ultimately show ?thesis
      using False reply
      by (intro exI [of _ "results_prefix @ lk_searchTerm a @ [0x22] @ ascii '':''
                       @ [0x000A, 0x000A] @ join [0x000A, 0x000A] (map match_entry ms)"]
                conjI impI exI [of _ "map match_entry ms"]) simp_all
  qed
qed

text \<open>
  Two matches for the term \<open>note\<close>: the reply has two bullets. No match: the reply is
  the not-found message.
\<close>

theorem lookup_reply_witness:
  "(\<exists>text. fst (capacities_lookup (parse_as two_matches) test_config
                 (respond_with 200 (ascii ''{...}''))
                 \<lparr> lk_searchTerm = ascii ''note'', lk_spaceId = Some (ascii ''space'') \<rparr> [])
             = Inr [TextContent text]
         \<and> count_list text bullet = 2)
   \<and> fst (capacities_lookup (parse_as no_matches) test_config
             (respond_with 200 (ascii ''{...}''))
             \<lparr> lk_searchTerm = ascii ''note'', lk_spaceId = Some (ascii ''space'') \<rparr> [])
       = Inr [TextContent (not_found_prefix @ ascii ''note'' @ [0x22])]"
proof -
  let ?P = "parse_as two_matches"
  let ?Q = "parse_as no_matches"
  let ?a = "\<lparr> lk_searchTerm = ascii ''note'', lk_spaceId = Some (ascii ''space'') \<rparr>"
  let ?b = "Some (JObj [(ascii ''searchTerm'', JStr (ascii ''note'')),
                        (ascii ''spaceId'', JStr (ascii ''space''))])"
  let ?res = "\<lparr> res_status = 200, res_statusText = [], res_text = Inr (ascii ''{...}'') \<rparr>"
  let ?rs = "[JObj [(ascii ''id'', JStr (ascii ''a1'')),
                    (ascii ''structureId'', JStr (ascii ''RootPage'')),
                    (ascii ''title'', JStr (ascii ''First''))],
              JObj [(ascii ''id'', JStr (ascii ''b2'')),
                    (ascii ''structureId'', JStr (ascii ''RootTag'')),
                    (ascii ''title'', JStr (ascii ''Second''))]] :: nat json list"
  let ?ms = "[\<lparr> m_id = ascii ''a1'', m_structureId = ascii ''RootPage'', m_title = ascii ''First'' \<rparr>,
              \<lparr> m_id = ascii ''b2'', m_structureId = ascii ''RootTag'', m_title = ascii ''Second'' \<rparr>]"
  have sent: "snd (capacities_lookup ?P test_config (respond_with 200 (ascii ''{...}'')) ?a [])
              = [] @ [fetch_request ?P test_config (ascii ''/lookup'') POST ?b None]"
    "snd (capacities_lookup ?Q test_config (respond_with 200 (ascii ''{...}'')) ?a [])
              = [] @ [fetch_request ?Q test_config (ascii ''/lookup'') POST ?b None]"
    by (simp_all add: capacities_lookup_def Let_def snd_await snd_capacitiesRequest
        target_space_def ascii_def)
  have answer: "respond_with 200 (ascii ''{...}'') req = Inr ?res" for req
    by (simp add: respond_with_def)
  have ok: "res_ok ?res"
    by (simp add: res_ok_def)
  have readable: "res_text ?res = Inr (ascii ''{...}'')"
    by simp
  have nonblank: "trim (ascii ''{...}'') \<noteq> []"
    by (simp add: trim_def ascii_def is_white_space_def)
  have parsed: "JSON_parse ?P (ascii ''{...}'') = Some two_matches"
    "JSON_parse ?Q (ascii ''{...}'') = Some no_matches"
    by (simp_all add: parse_as_def)
  have results: "Get (Some two_matches) (ascii ''results'') = Inr (Some (JArr ?rs))"
    "Get (Some no_matches) (ascii ''results'') = Inr (Some (JArr []))"
    by (simp_all add: two_matches_def no_matches_def)
  have matches: "list_all2 is_match ?rs ?ms"
    by (simp add: is_match_def ascii_def)
  have none: "list_all2 is_match ([] :: nat json list) []"
    by simp
  have free: "bullet \<notin> set (lk_searchTerm ?a) \<and> (\<forall>m \<in> set ?ms. bullet_free m)"
    by (simp add: bullet_free_def bullet_def ascii_def)
  from lookup_reply [OF sent(1) answer ok readable nonblank parsed(1) results(1) matches] free
  have two: "\<exists>text. fst (capacities_lookup ?P test_config (respond_with 200 (ascii ''{...}''))
                         ?a []) = Inr [TextContent text]
                  \<and> count_list text bullet = 2"
    by auto
  from lookup_reply [OF sent(2) answer ok readable nonblank parsed(2) results(2) none]
  have "fst (capacities_lookup ?Q test_config (respond_with 200 (ascii ''{...}'')) ?a [])
          = Inr [TextContent (not_found_prefix @ ascii ''note'' @ [0x22])]"
    by auto
  with two show ?thesis
    by blast
qed

section \<open>Empty overrides of a weblink\<close>

lemma spread_string_empty: "spread_string k (Some []) = spread_string k None"
  by (simp add: spread_string_def)

lemma weblink_sent_bodies:
  assumes "target_space cfg (wl_spaceId a) \<noteq> []"
  shows "map req_body (drop (length log) (snd (capacities_save_weblink P cfg fetch a log)))
         = [Some (JSON_stringify P (weblink_body (target_space cfg (wl_spaceId a)) a))]"
  using assms
  by (simp add: capacities_save_weblink_def Let_def snd_await snd_capacitiesRequest
      fetch_request_def weblink_body_def)

text \<open>
  C9: if the arguments of \<open>capacities_save_weblink\<close> satisfy the schema, they still do
  with the title, the description or the notes replaced by the empty string, or the tags
  by the empty list. A call with an empty title, description or notes is the call without
  that argument: the same requests, the same reply. And when the workspace id is
  resolved, each of these calls sends exactly one request, whose body is the serialised
  object written out below: \<open>spaceId\<close> and \<open>url\<close>, then the overrides that are
  given and not empty, with no property for the empty one; with the empty list of tags
  the object ends with the property \<open>tags\<close>, an empty array, which the body of the
  call without tags does not have.
\<close>

theorem empty_overrides_omitted:
  assumes "weblink_schema Z a = Some a"
  shows "weblink_schema Z (a\<lparr>wl_title := Some []\<rparr>) = Some (a\<lparr>wl_title := Some []\<rparr>)
       \<and> weblink_schema Z (a\<lparr>wl_description := Some []\<rparr>) = Some (a\<lparr>wl_description := Some []\<rparr>)
       \<and> weblink_schema Z (a\<lparr>wl_notes := Some []\<rparr>) = Some (a\<lparr>wl_notes := Some []\<rparr>)
       \<and> weblink_schema Z (a\<lparr>wl_tags := Some []\<rparr>) = Some (a\<lparr>wl_tags := Some []\<rparr>)
       \<and> capacities_save_weblink P cfg fetch (a\<lparr>wl_title := Some []\<rparr>) log
           = capacities_save_weblink P cfg fetch (a\<lparr>wl_title := None\<rparr>) log
       \<and> capacities_save_weblink P cfg fetch (a\<lparr>wl_description := Some []\<rparr>) log
           = capacities_save_weblink P cfg fetch (a\<lparr>wl_description := None\<rparr>) log
       \<and> capacities_save_weblink P cfg fetch (a\<lparr>wl_notes := Some []\<rparr>) log
           = capacities_save_weblink P cfg fetch (a\<lparr>wl_notes := None\<rparr>) log
       \<and> (let base = [(ascii ''spaceId'', JStr (target_space cfg (wl_spaceId a))),
                      (ascii ''url'', JStr (wl_url a))];
               title = (case wl_title a of None \<Rightarrow> []
                        | Some s \<Rightarrow> if s = [] then [] else [(ascii ''titleOverwrite'', JStr s)]);
               description = (case wl_description a of None \<Rightarrow> []
                        | Some s \<Rightarrow> if s = [] then []
                                   else [(ascii ''descriptionOverwrite'', JStr s)]);
               notes = (case wl_notes a of None \<Rightarrow> []
                        | Some s \<Rightarrow> if s = [] then [] else [(ascii ''mdText'', JStr s)]);
               tags = (case wl_tags a of None \<Rightarrow> []
                       | Some ts \<Rightarrow> [(ascii ''tags'', JArr (map JStr ts))]);
               sent = (\<lambda>a'. map req_body
                        (drop (length log) (snd (capacities_save_weblink P cfg fetch a' log))))
           in target_space cfg (wl_spaceId a) \<noteq> [] \<longrightarrow>
                sent (a\<lparr>wl_title := Some []\<rparr>)
                  = [Some (JSON_stringify P (JObj (base @ description @ notes @ tags)))]
              \<and> sent (a\<lparr>wl_description := Some []\<rparr>)
                  = [Some (JSON_stringify P (JObj (base @ title @ notes @ tags)))]
              \<and> sent (a\<lparr>wl_notes := Some []\<rparr>)
                  = [Some (JSON_stringify P (JObj (base @ title @ description @ tags)))]
              \<and> sent (a\<lparr>wl_tags := Some []\<rparr>)
                  = [Some (JSON_stringify P
                       (JObj (base @ title @ description @ notes @ [(ascii ''tags'', JArr [])])))]
              \<and> sent (a\<lparr>wl_tags := None\<rparr>)
                  = [Some (JSON_stringify P (JObj (base @ title @ description @ notes)))]
              \<and> map_of (base @ title @ description @ notes) (ascii ''tags'') = None)"
proof -
  have valid: "weblink_schema Z (a\<lparr>wl_title := Some []\<rparr>) = Some (a\<lparr>wl_title := Some []\<rparr>)"
    "weblink_schema Z (a\<lparr>wl_description := Some []\<rparr>) = Some (a\<lparr>wl_description := Some []\<rparr>)"
    "weblink_schema Z (a\<lparr>wl_notes := Some []\<rparr>) = Some (a\<lparr>wl_notes := Some []\<rparr>)"
    "weblink_schema Z (a\<lparr>wl_tags := Some []\<rparr>) = Some (a\<lparr>wl_tags := Some []\<rparr>)"
    using assms by (simp_all add: weblink_schema_def optional_def split: if_splits)
  have same: "capacities_save_weblink P cfg fetch (a\<lparr>wl_title := Some []\<rparr>) log
           = capacities_save_weblink P cfg fetch (a\<lparr>wl_title := None\<rparr>) log"
    "capacities_save_weblink P cfg fetch (a\<lparr>wl_description := Some []\<rparr>) log
           = capacities_save_weblink P cfg fetch (a\<lparr>wl_description := None\<rparr>) log"
    "capacities_save_weblink P cfg fetch (a\<lparr>wl_notes := Some []\<rparr>) log
           = capacities_save_weblink P cfg fetch (a\<lparr>wl_notes := None\<rparr>) log"
    by (simp_all add: capacities_save_weblink_def Let_def weblink_body_def spread_string_empty)
  have keys: "ascii ''tags'' \<noteq> ascii ''spaceId''" "ascii ''tags'' \<noteq> ascii ''url''"
    "ascii ''tags'' \<noteq> ascii ''titleOverwrite''" "ascii ''tags'' \<noteq> ascii ''descriptionOverwrite''"
    "ascii ''tags'' \<noteq> ascii ''mdText''"
    by (simp_all add: ascii_def)
  have sent: "map req_body
                (drop (length log) (snd (capacities_save_weblink P cfg fetch a' log)))
              = [Some (JSON_stringify P (weblink_body (target_space cfg (wl_spaceId a)) a'))]"
    if "target_space cfg (wl_spaceId a) \<noteq> []" and "wl_spaceId a' = wl_spaceId a" for a'
    using that weblink_sent_bodies [of cfg a' log P fetch] by simp
  have bodies: "target_space cfg (wl_spaceId a) \<noteq> [] \<longrightarrow>
      map req_body (drop (length log)
          (snd (capacities_save_weblink P cfg fetch (a\<lparr>wl_title := Some []\<rparr>) log)))
        = [Some (JSON_stringify P (JObj
             ([(ascii ''spaceId'', JStr (target_space cfg (wl_spaceId a))),
               (ascii ''url'', JStr (wl_url a))]
              @ (case wl_description a of None \<Rightarrow> []
                 | Some s \<Rightarrow> if s = [] then [] else [(ascii ''descriptionOverwrite'', JStr s)])
              @ (case wl_notes a of None \<Rightarrow> []
                 | Some s \<Rightarrow> if s = [] then [] else [(ascii ''mdText'', JStr s)])
              @ (case wl_tags a of None \<Rightarrow> []
                 | Some ts \<Rightarrow> [(ascii ''tags'', JArr (map JStr ts))]))))]
    \<and> map req_body (drop (length log)
          (snd (capacities_save_weblink P cfg fetch (a\<lparr>wl_description := Some []\<rparr>) log)))
        = [Some (JSON_stringify P (JObj
             ([(ascii ''spaceId'', JStr (target_space cfg (wl_spaceId a))),
               (ascii ''url'', JStr (wl_url a))]
              @ (case wl_title a of None \<Rightarrow> []
                 | Some s \<Rightarrow> if s = [] then [] else [(ascii ''titleOverwrite'', JStr s)])
              @ (case wl_notes a of None \<Rightarrow> []
                 | Some s \<Rightarrow> if s = [] then [] else [(ascii ''mdText'', JStr s)])
              @ (case wl_tags a of None \<Rightarrow> []
                 | Some ts \<Rightarrow> [(ascii ''tags'', JArr (map JStr ts))]))))]
    \<and> map req_body (drop (length log)
          (snd (capacities_save_weblink P cfg fetch (a\<lparr>wl_notes := Some []\<rparr>) log)))
        = [Some (JSON_stringify P (JObj
             ([(ascii ''spaceId'', JStr (target_space cfg (wl_spaceId a))),
               (ascii ''url'', JStr (wl_url a))]
              @ (case wl_title a of None \<Rightarrow> []
                 | Some s \<Rightarrow> if s = [] then [] else [(ascii ''titleOverwrite'', JStr s)])
              @ (case wl_description a of None \<Rightarrow> []
                 | Some s \<Rightarrow> if s = [] then [] else [(ascii ''descriptionOverwrite'', JStr s)])
              @ (case wl_tags a of None \<Rightarrow> []
                 | Some ts \<Rightarrow> [(ascii ''tags'', JArr (map JStr ts))]))))]
    \<and> map req_body (drop (length log)
          (snd (capacities_save_weblink P cfg fetch (a\<lparr>wl_tags := Some []\<rparr>) log)))
        = [Some (JSON_stringify P (JObj
             ([(ascii ''spaceId'', JStr (target_space cfg (wl_spaceId a))),
               (ascii ''url'', JStr (wl_url a))]
              @ (case wl_title a of None \<Rightarrow> []
                 | Some s \<Rightarrow> if s = [] then [] else [(ascii ''titleOverwrite'', JStr s)])
              @ (case wl_description a of None \<Rightarrow> []
                 | Some s \<Rightarrow> if s = [] then [] else [(ascii ''descriptionOverwrite'', JStr s)])
              @ (case wl_notes a of None \<Rightarrow> []
                 | Some s \<Rightarrow> if s = [] then [] else [(ascii ''mdText'', JStr s)])
              @ [(ascii ''tags'', JArr [])])))]
    \<and> map req_body (drop (length log)
          (snd (capacities_save_weblink P cfg fetch (a\<lparr>wl_tags := None\<rparr>) log)))
        = [Some (JSON_stringify P (JObj
             ([(ascii ''spaceId'', JStr (target_space cfg (wl_spaceId a))),
               (ascii ''url'', JStr (wl_url a))]
              @ (case wl_title a of None \<Rightarrow> []
                 | Some s \<Rightarrow> if s = [] then [] else [(ascii ''titleOverwrite'', JStr s)])
              @ (case wl_description a of None \<Rightarrow> []
                 | Some s \<Rightarrow> if s = [] then [] else [(ascii ''descriptionOverwrite'', JStr s)])
              @ (case wl_notes a of None \<Rightarrow> []
                 | Some s \<Rightarrow> if s = [] then [] else [(ascii ''mdText'', JStr s)]))))]"
    by (auto simp add: sent weblink_body_def spread_string_def spread_tags_def
        split: option.splits)
  have absent: "map_of
      ([(ascii ''spaceId'', JStr (target_space cfg (wl_spaceId a))),
        (ascii ''url'', JStr (wl_url a))]
       @ (case wl_title a of None \<Rightarrow> []
          | Some s \<Rightarrow> if s = [] then [] else [(ascii ''titleOverwrite'', JStr s)])
       @ (case wl_description a of None \<Rightarrow> []
          | Some s \<Rightarrow> if s = [] then [] else [(ascii ''descriptionOverwrite'', JStr s)])
       @ (case wl_notes a of None \<Rightarrow> []
          | Some s \<Rightarrow> if s = [] then [] else [(ascii ''mdText'', JStr s)]))
      (ascii ''tags'') = (None :: 'a json option)"
    using keys by (simp add: map_add_def split: option.splits)
  show ?thesis
    unfolding Let_def using valid same bodies absent by blast
qed

text \<open>
  The url \<open>https://example.com\<close> with an empty title, and with an empty list of tags:
  the bodies sent.
\<close>

theorem empty_overrides_omitted_witness:
  "map req_body
     (snd (capacities_save_weblink (parse_as JNull) test_config (respond_with 200 [])
        \<lparr> wl_url = ascii ''https://example.com'', wl_title = Some [], wl_description = None,
          wl_notes = None, wl_tags = None, wl_spaceId = Some (ascii ''space'') \<rparr> []))
   = [Some url_only_body]
   \<and> map req_body
     (snd (capacities_save_weblink (parse_as JNull) test_config (respond_with 200 [])
        \<lparr> wl_url = ascii ''https://example.com'', wl_title = None, wl_description = None,
          wl_notes = None, wl_tags = Some [], wl_spaceId = Some (ascii ''space'') \<rparr> []))
   = [Some url_and_empty_tags_body]"
proof -
  let ?Z = "\<lparr> is_uuid = (\<lambda>s. True), is_url = (\<lambda>s. True) \<rparr>"
  let ?a = "\<lparr> wl_url = ascii ''https://example.com'', wl_title = None, wl_description = None,
             wl_notes = None, wl_tags = None, wl_spaceId = Some (ascii ''space'') \<rparr>"
  have valid: "weblink_schema ?Z ?a = Some ?a"
    by (simp add: weblink_schema_def optional_def)
  have space: "target_space test_config (wl_spaceId ?a) \<noteq> []"
    by (simp add: target_space_def ascii_def)
  from empty_overrides_omitted
      [OF valid, of "parse_as JNull" test_config "respond_with 200 []" "[]"] space
  show ?thesis
    by (simp add: Let_def target_space_def parse_as_def url_only_body_def
        url_and_empty_tags_body_def ascii_def)
qed

section \<open>Empty values in the environment\<close>

text \<open>
  C10: if \<open>CAPACITIES_TOKEN\<close> is unset or empty, start-up writes the diagnostic to the
  error stream and exits with status 1, with no tool registered; and if
  \<open>CAPACITIES_SPACE_ID\<close> is empty, every call of a tool that takes a workspace id,
  made without one, returns the missing-workspace reply and sends nothing.
\<close>

theorem empty_environment_is_absent:
  "(env (ascii ''CAPACITIES_TOKEN'') = None \<or> env (ascii ''CAPACITIES_TOKEN'') = Some [] \<longrightarrow>
      startup env =
        \<lparr> stderr = [ascii ''ERROR: CAPACITIES_TOKEN env var is required'' @ [0x000A]],
          exit_code = Some 1, registered = [] \<rparr>)
   \<and> (env (ascii ''CAPACITIES_SPACE_ID'') = Some [] \<and> c \<noteq> GetSpaces \<and> call_spaceId c = None \<longrightarrow>
      call_tool P (load_config env) fetch c log = (Inr missing_space_reply, log))"
proof (intro conjI impI)
  assume "env (ascii ''CAPACITIES_TOKEN'') = None \<or> env (ascii ''CAPACITIES_TOKEN'') = Some []"
  then show "startup env =
        \<lparr> stderr = [ascii ''ERROR: CAPACITIES_TOKEN env var is required'' @ [0x000A]],
          exit_code = Some 1, registered = [] \<rparr>"
    by (auto simp: startup_def load_config_def)
next
  assume "env (ascii ''CAPACITIES_SPACE_ID'') = Some [] \<and> c \<noteq> GetSpaces \<and> call_spaceId c = None"
  then have "c \<noteq> GetSpaces" and "target_space (load_config env) (call_spaceId c) = []"
    by (simp_all add: target_space_def load_config_def)
  with call_tool_shape [of P "load_config env" fetch c log]
  show "call_tool P (load_config env) fetch c log = (Inr missing_space_reply, log)"
    by auto
qed

theorem empty_environment_is_absent_witness:
  "exit_code (startup env_without_token) = Some 1
   \<and> registered (startup env_without_token) = []
   \<and> call_tool (parse_as JNull) (load_config env_with_empty_space) (respond_with 200 [])
        (SaveToDailyNote \<lparr> dn_text = ascii ''hello'', dn_spaceId = None, dn_noTimestamp = False \<rparr>) []
      = (Inr missing_space_reply, [])"
proof -
  have "env_with_empty_space (ascii ''CAPACITIES_SPACE_ID'') = Some []"
    by (simp add: env_with_empty_space_def ascii_def)
  with empty_environment_is_absent [of env_without_token]
       empty_environment_is_absent [of env_with_empty_space
         "SaveToDailyNote \<lparr> dn_text = ascii ''hello'', dn_spaceId = None, dn_noTimestamp = False \<rparr>"
         "parse_as JNull" "respond_with 200 []" "[]"]
  show ?thesis
    by (simp add: env_without_token_def)
qed

end
